theory Spec2Isabelle
  imports Main
begin

section \<open>Text values\<close>

text \<open>
  The repository holds two variants of the same Telegram bot: \<^verbatim>\<open>bot.py\<close> (PostgreSQL store)
  and \<^verbatim>\<open>main.py\<close> (SQLite store). Where both define a function of the same name the
  embedding keeps the name and appends \<open>_bot\<close> or \<open>_main\<close>.

  A Python \<^verbatim>\<open>str\<close> is a sequence of Unicode code points, and \<^verbatim>\<open>len\<close> counts code points,
  so a text value is a list of code points. ASCII literals of the source are written
  through \<open>asc\<close>; every other literal is spelled out as its code points.
\<close>

type_synonym ustr = "nat list"

definition asc :: "string \<Rightarrow> ustr" where
  "asc s = map of_char s"

text \<open>The code points for which \<^verbatim>\<open>str.isspace\<close> holds (also the class \<^verbatim>\<open>\s\<close> of \<^verbatim>\<open>re\<close>).\<close>

definition is_space :: "nat \<Rightarrow> bool" where
  "is_space c = ((9 \<le> c \<and> c \<le> 13) \<or> (28 \<le> c \<and> c \<le> 32) \<or> c = 133 \<or> c = 160 \<or> c = 5760
     \<or> (8192 \<le> c \<and> c \<le> 8202) \<or> c = 8232 \<or> c = 8233 \<or> c = 8239 \<or> c = 8287 \<or> c = 12288)"

text \<open>\<^verbatim>\<open>str.strip()\<close>: whitespace removed at both ends.\<close>

definition strip :: "ustr \<Rightarrow> ustr" where
  "strip s = rev (dropWhile is_space (rev (dropWhile is_space s)))"

definition startswith :: "ustr \<Rightarrow> ustr \<Rightarrow> bool" where
  "startswith s p = (take (length p) s = p)"

definition endswith :: "ustr \<Rightarrow> ustr \<Rightarrow> bool" where
  "endswith s p = (length p \<le> length s \<and> drop (length s - length p) s = p)"

text \<open>\<^verbatim>\<open>sub in s\<close> on strings.\<close>

fun has_substr :: "ustr \<Rightarrow> ustr \<Rightarrow> bool" where
  "has_substr sub [] = (sub = [])"
| "has_substr sub (c # cs) = (startswith (c # cs) sub \<or> has_substr sub cs)"

section \<open>Constants\<close>

definition MAX_NAME_LENGTH :: nat where
  "MAX_NAME_LENGTH = 50"

definition MAX_TEXT_LENGTH :: nat where
  "MAX_TEXT_LENGTH = 4000"




section \<open>Name validation\<close>

text \<open>
  \<^verbatim>\<open>allowed_chars\<close> of \<^verbatim>\<open>validate_name\<close> (the same set in both files): the 33 lower-case
  and 33 upper-case Russian letters (U+0430..U+044F, U+0451, U+0410..U+042F, U+0401), the
  space and the hyphen-minus.
\<close>

definition allowed_chars :: "nat \<Rightarrow> bool" where
  "allowed_chars c = ((1072 \<le> c \<and> c \<le> 1103) \<or> c = 1105 \<or> (1040 \<le> c \<and> c \<le> 1071) \<or> c = 1025
     \<or> c = 32 \<or> c = 45)"

text \<open>
  \<^verbatim>\<open>bot.py\<close>, lines 266-277. An empty or all-blank name returns False first; then the
  trimmed name is checked for length, characters, and the placing of hyphens.
\<close>

definition validate_name_bot :: "ustr \<Rightarrow> bool" where
  "validate_name_bot name =
     (if name = [] \<or> strip name = [] then False
      else (let name' = strip name in
        2 \<le> length name' \<and> length name' \<le> MAX_NAME_LENGTH \<and>
        list_all allowed_chars name' \<and>
        \<not> startswith name' [45] \<and>
        \<not> endswith name' [45] \<and>
        \<not> has_substr [45, 45] name'))"

text \<open>
  \<^verbatim>\<open>main.py\<close>, lines 279-283. The function returns
  \<^verbatim>\<open>name and 2 <= len(name) <= MAX_NAME_LENGTH and all(...)\<close>; its callers only test the
  result for truth, so the model returns the truth value (the empty string is falsy).
\<close>

definition validate_name_main :: "ustr \<Rightarrow> bool" where
  "validate_name_main name =
     (let name' = strip name in
        name' \<noteq> [] \<and> 2 \<le> length name' \<and> length name' \<le> MAX_NAME_LENGTH \<and>
        list_all allowed_chars name')"

text \<open>
  The rule of the specification for a name, in its own words: the trimmed value has
  length 2 to 50, consists only of allowed letters, spaces and hyphens, does not start
  or end with a hyphen, and contains no doubled hyphen.
\<close>

definition spec_name_rule :: "ustr \<Rightarrow> bool" where
  "spec_name_rule name =
     (let t = strip name in
        2 \<le> length t \<and> length t \<le> 50 \<and>
        (\<nexists>c. c \<in> set t \<and> \<not> allowed_chars c) \<and>
        hd t \<noteq> 45 \<and> last t \<noteq> 45 \<and>
        (\<nexists>i. Suc i < length t \<and> t ! i = 45 \<and> t ! Suc i = 45))"

text \<open>What \<^verbatim>\<open>main.py\<close> checks: length and characters only (as its docstring says).\<close>

definition length_and_chars_rule :: "ustr \<Rightarrow> bool" where
  "length_and_chars_rule name =
     (let t = strip name in
        2 \<le> length t \<and> length t \<le> 50 \<and> (\<nexists>c. c \<in> set t \<and> \<not> allowed_chars c))"

section \<open>Calendar dates\<close>

text \<open>
  A \<^verbatim>\<open>datetime.date\<close> is represented by its proleptic Gregorian ordinal
  (\<^verbatim>\<open>date.toordinal()\<close>: 1 is 0001-01-01), which is how the interpreter adds a
  \<^verbatim>\<open>timedelta\<close> and which orders dates as their comparison does. \<open>date_of\<close> is the
  constructor \<^verbatim>\<open>date(y, m, d)\<close>: it raises ValueError (here \<open>None\<close>) outside
  years 1..9999 or on a day the month does not have.
\<close>

definition is_leap :: "nat \<Rightarrow> bool" where
  "is_leap y = (y mod 4 = 0 \<and> (y mod 100 \<noteq> 0 \<or> y mod 400 = 0))"

definition days_in_month :: "nat \<Rightarrow> nat \<Rightarrow> nat" where
  "days_in_month y m =
     (if m = 2 then (if is_leap y then 29 else 28)
      else if m = 4 \<or> m = 6 \<or> m = 9 \<or> m = 11 then 30 else 31)"

definition days_before_year :: "nat \<Rightarrow> nat" where
  "days_before_year y = (y - 1) * 365 + (y - 1) div 4 - (y - 1) div 100 + (y - 1) div 400"

definition days_before_month :: "nat \<Rightarrow> nat \<Rightarrow> nat" where
  "days_before_month y m = sum_list (map (days_in_month y) [1..<m])"

definition MAXORDINAL :: nat where
  "MAXORDINAL = 3652059"

definition date_of :: "nat \<Rightarrow> nat \<Rightarrow> nat \<Rightarrow> nat option" where
  "date_of y m d =
     (if 1 \<le> y \<and> y \<le> 9999 \<and> 1 \<le> m \<and> m \<le> 12 \<and> 1 \<le> d \<and> d \<le> days_in_month y m
      then Some (days_before_year y + days_before_month y m + d) else None)"

text \<open>\<^verbatim>\<open>date + timedelta(days=n)\<close> and \<^verbatim>\<open>date - timedelta(days=n)\<close>: OverflowError outside the range.\<close>

definition date_plus_days :: "nat \<Rightarrow> nat \<Rightarrow> nat option" where
  "date_plus_days ord n = (if ord + n \<le> MAXORDINAL then Some (ord + n) else None)"

definition date_minus_days :: "nat \<Rightarrow> nat \<Rightarrow> nat option" where
  "date_minus_days ord n = (if n < ord then Some (ord - n) else None)"

text \<open>
  The clock: \<^verbatim>\<open>datetime.now()\<close> read as year, month and day. Both readings a function
  makes are taken from the same instant.
\<close>

record clock =
  now_year :: nat
  now_month :: nat
  now_day :: nat

text \<open>
  \<^verbatim>\<open>datetime.strptime(f"{current_year}-{holiday_date_str}", "%Y-%m-%d")\<close>, the holiday
  string already split into month and day: \<^verbatim>\<open>%Y\<close> wants four digits, so a year below 1000
  (printed with fewer) is a ValueError, as is a date that does not exist.
\<close>

definition strptime_year_md :: "nat \<Rightarrow> nat \<times> nat \<Rightarrow> nat option" where
  "strptime_year_md y md = (if 1000 \<le> y then date_of y (fst md) (snd md) else None)"

text \<open>
  \<^verbatim>\<open>is_holiday_active\<close> (\<^verbatim>\<open>bot.py\<close> 279-290, \<^verbatim>\<open>main.py\<close> 285-296; the same computation).
  Every exception is caught and gives False.
\<close>

definition is_holiday_active :: "clock \<Rightarrow> nat \<times> nat \<Rightarrow> bool" where
  "is_holiday_active clk holiday_md =
     (let current_year = now_year clk in
      case strptime_year_md current_year holiday_md of
        None \<Rightarrow> False
      | Some holiday_date \<Rightarrow>
         (case date_minus_days holiday_date 5 of
            None \<Rightarrow> False
          | Some start_active \<Rightarrow>
             (case date_plus_days holiday_date 5 of
                None \<Rightarrow> False
              | Some end_active \<Rightarrow>
                 (case date_of (now_year clk) (now_month clk) (now_day clk) of
                    None \<Rightarrow> False
                  | Some today \<Rightarrow> start_active \<le> today \<and> today \<le> end_active))))"

section \<open>The censor\<close>

text \<open>
  Both files search and replace with \<^verbatim>\<open>re.IGNORECASE\<close> on \<^verbatim>\<open>str\<close> patterns. A pattern
  character \<open>p\<close> then matches a text character \<open>d\<close> when their lower-case forms agree, or
  when \<open>d\<close> is one of the extra equivalents the \<^verbatim>\<open>re\<close> module lists for \<open>p\<close>. The tables
  below cover Basic Latin and the Cyrillic block (every banned term and keyword of the
  source is written in these); any other code point matches only itself.
\<close>

definition tolower_cp :: "nat \<Rightarrow> nat" where
  "tolower_cp c =
     (if 65 \<le> c \<and> c \<le> 90 then c + 32
      else if 1040 \<le> c \<and> c \<le> 1071 then c + 32
      else if 1024 \<le> c \<and> c \<le> 1039 then c + 80
      else c)"

definition ci_fixes :: "nat \<Rightarrow> nat list" where
  "ci_fixes lo =
     (if lo = 105 then [304, 305]
      else if lo = 107 then [8490]
      else if lo = 115 then [383]
      else if lo = 1074 then [7296]
      else if lo = 1076 then [7297]
      else if lo = 1086 then [7298]
      else if lo = 1089 then [7299]
      else if lo = 1090 then [7300, 7301]
      else if lo = 1098 then [7302]
      else [])"

definition ci_match :: "nat \<Rightarrow> nat \<Rightarrow> bool" where
  "ci_match p d = (tolower_cp d = tolower_cp p \<or> d \<in> set (ci_fixes (tolower_cp p)))"

text \<open>The escaped word \<open>w\<close> matches at the start of the text.\<close>

fun ci_prefix :: "ustr \<Rightarrow> ustr \<Rightarrow> bool" where
  "ci_prefix [] s = True"
| "ci_prefix (p # ps) [] = False"
| "ci_prefix (p # ps) (d # ds) = (ci_match p d \<and> ci_prefix ps ds)"

text \<open>\<^verbatim>\<open>re.search(re.escape(word), text, re.IGNORECASE)\<close>, as a truth value.\<close>

fun re_search :: "ustr \<Rightarrow> ustr \<Rightarrow> bool" where
  "re_search w [] = (w = [])"
| "re_search w (c # cs) = (ci_prefix w (c # cs) \<or> re_search w cs)"

definition mask :: ustr where
  "mask = [42, 42, 42]"

text \<open>
  \<^verbatim>\<open>re.sub(re.escape(word), '***', text, flags=re.IGNORECASE)\<close>: the text is scanned from
  the left; a match is replaced and the scan goes on behind it, otherwise one character
  is copied. An empty pattern matches before every character and at the end.
\<close>

fun sub_word :: "ustr \<Rightarrow> ustr \<Rightarrow> ustr" where
  "sub_word w [] = []"
| "sub_word w (c # cs) =
     (if ci_prefix w (c # cs) then mask @ sub_word w (drop (length w - 1) cs)
      else c # sub_word w cs)"

definition re_sub :: "ustr \<Rightarrow> ustr \<Rightarrow> ustr" where
  "re_sub w t = (if w = [] then mask @ concat (map (\<lambda>c. c # mask) t) else sub_word w t)"

text \<open>The loop over the banned words, shared by both files: state is (censored, has_bad).\<close>

fun censor_loop :: "ustr list \<Rightarrow> ustr \<times> bool \<Rightarrow> ustr \<times> bool" where
  "censor_loop [] acc = acc"
| "censor_loop (w # ws) acc =
     (if re_search w (fst acc) then censor_loop ws (re_sub w (fst acc), True)
      else censor_loop ws acc)"

text \<open>\<^verbatim>\<open>DEFAULT_BAD_WORDS\<close> of \<^verbatim>\<open>bot.py\<close> (line 36), 109 entries in the source's order.\<close>

definition DEFAULT_BAD_WORDS_bot :: "ustr list" where
  "DEFAULT_BAD_WORDS_bot =
     [
     [1093, 1091, 1081],
     [1087, 1080, 1079, 1076, 1072],
     [1073, 1083, 1103, 1090, 1100],
     [1073, 1083, 1103, 1076, 1100],
     [1077, 1073, 1072, 1090, 1100],
     [1089, 1091, 1082, 1072],
     [1085, 1086, 1084, 1077, 1088],
     [1090, 1077, 1083, 1077, 1092, 1086, 1085],
     [1079, 1074, 1086, 1085, 1080, 1090, 1077],
     [1087, 1080, 1096, 1080, 1090, 1077],
     [1082, 1086, 1085, 1090, 1072, 1082, 1090],
     [1084, 1080, 1085, 1077, 1090],
     [1084, 1080, 1085, 1077, 1090, 1095, 1080, 1082],
     [1084, 1080, 1085, 1077, 1090, 1095, 1080, 1094, 1072],
     [1084, 1086, 1082, 1088, 1086, 1097, 1077, 1083, 1082, 1072],
     [1084, 1086, 1082, 1088, 1086, 1097, 1105, 1083, 1082, 1072],
     [1084, 1072, 1085, 1076, 1072],
     [1084, 1072, 1085, 1076, 1072, 1074, 1086, 1096, 1082, 1072],
     [1084, 1072, 1085, 1076, 1072, 1074, 1086, 1096, 1082, 1080],
     [1084, 1072, 1085, 1076, 1077, 1081],
     [1084, 1072, 1085, 1076, 1077, 1085, 1100],
     [1084, 1072, 1085, 1076, 1077, 1090, 1100],
     [1084, 1072, 1085, 1076, 1080, 1097, 1072],
     [1084, 1072, 1085, 1076, 1086, 1081],
     [1084, 1072, 1085, 1076, 1091],
     [1084, 1072, 1085, 1076, 1102, 1082],
     [1084, 1072, 1085, 1076, 1102, 1075, 1072],
     [1084, 1091, 1076, 1086, 1077, 1073],
     [1084, 1091, 1076, 1086, 1079, 1074, 1086, 1085],
     [1084, 1091, 1076, 1086, 1082, 1083, 1102, 1081],
     [1085, 1072, 1077, 1073, 1072, 1090, 1100],
     [1085, 1072, 1077, 1073, 1077, 1090],
     [1085, 1072, 1077, 1073, 1085, 1091, 1090, 1100],
     [1085, 1072, 1077, 1073, 1099, 1074, 1072, 1090, 1100],
     [1086, 1073, 1086, 1089, 1088, 1072, 1090, 1100],
     [1086, 1073, 1086, 1089, 1094, 1072, 1090, 1100],
     [1086, 1073, 1086, 1089, 1094, 1072, 1090, 1100, 1089, 1103],
     [1086, 1073, 1076, 1088, 1080, 1089, 1090, 1072, 1090, 1100, 1089, 1103],
     [1086, 1073, 1098, 1077, 1073, 1086, 1089],
     [1086, 1073, 1100, 1077, 1073, 1072, 1090, 1100],
     [1086, 1073, 1100, 1077, 1073, 1086, 1089],
     [1086, 1090, 1087, 1080, 1079, 1076, 1080, 1090, 1100],
     [1086, 1090, 1087, 1080, 1079, 1076, 1103, 1095, 1080, 1090, 1100],
     [1086, 1090, 1087, 1086, 1088, 1086, 1090, 1100],
     [1086, 1090, 1098, 1077, 1073, 1080, 1089, 1100],
     [1086, 1089, 1090, 1086, 1077, 1073, 1077, 1085, 1080, 1090, 1100],
     [1086, 1089, 1090, 1086, 1087, 1080, 1079, 1076, 1077, 1090, 1100],
     [1086, 1093, 1091, 1077, 1090, 1100],
     [1086, 1093, 1091, 1077, 1085, 1085, 1086],
     [1086, 1093, 1091, 1077, 1074, 1072, 1090, 1100],
     [1086, 1093, 1091, 1077, 1074, 1072, 1102, 1097, 1080, 1081],
     [1087, 1072, 1089, 1082, 1091, 1076, 1072],
     [1087, 1072, 1076, 1083, 1072],
     [1087, 1072, 1089, 1082, 1091, 1076, 1085, 1080, 1082],
     [1085, 1072, 1093, 1077, 1088],
     [1085, 1072, 1093, 1088, 1077, 1085],
     [1085, 1072, 1093, 1091, 1081],
     [1085, 1077, 1093, 1077, 1088, 1072],
     [1085, 1077, 1093, 1088, 1077, 1085],
     [1085, 1077, 1093, 1091, 1081],
     [1085, 1080, 1082, 1091, 1103],
     [1085, 1080, 1093, 1091, 1103],
     [1085, 1080, 1093, 1077, 1088, 1072],
     [1085, 1077, 1087, 1080, 1079, 1076, 1072],
     [1085, 1080, 1087, 1080, 1079, 1076, 1072],
     [1085, 1080, 1087, 1080, 1079, 1076, 1091],
     [1085, 1072, 1087, 1080, 1079, 1076, 1077, 1083],
     [1085, 1072, 1087, 1080, 1079, 1076, 1080, 1083, 1080],
     [1085, 1072, 1077, 1073, 1085, 1091, 1083, 1089, 1103],
     [1085, 1072, 1077, 1073, 1072, 1083, 1089, 1103],
     [1087, 1077, 1088, 1076, 1077, 1078],
     [1087, 1077, 1088, 1076, 1077, 1085, 1080, 1077],
     [1087, 1077, 1088, 1076, 1077, 1090, 1100],
     [1087, 1077, 1088, 1076, 1080, 1083, 1100, 1085, 1080, 1082],
     [1087, 1077, 1088, 1076, 1091, 1085],
     [1087, 1077, 1088, 1076, 1091, 1085, 1077, 1094],
     [1087, 1077, 1088, 1076, 1091, 1085, 1100, 1103],
     [1087, 1077, 1088, 1076, 1091, 1093, 1072],
     [1087, 1077, 1088, 1076, 1091, 1083, 1100, 1082, 1080],
     [1087, 1077, 1088, 1076, 1085, 1091, 1090, 1100],
     [1087, 1105, 1088, 1085, 1091, 1090, 1100],
     [1087, 1077, 1088, 1085, 1091, 1090, 1100],
     [1087, 1077, 1088, 1076, 1103, 1090],
     [1087, 1080, 1079, 1076, 1103, 1090],
     [1087, 1080, 1079, 1076, 1080, 1090, 1100],
     [1087, 1080, 1079, 1076, 1080, 1096, 1100],
     [1087, 1080, 1079, 1076, 1080, 1090, 1089, 1103],
     [1079, 1072, 1077, 1073, 1072, 1083],
     [1079, 1072, 1077, 1073, 1083, 1086],
     [1087, 1080, 1076, 1072, 1088],
     [1087, 1080, 1076, 1072, 1088, 1072, 1089],
     [1087, 1080, 1076, 1086, 1088],
     [1087, 1080, 1076, 1086, 1088, 1072, 1089],
     [1087, 1080, 1076, 1080, 1082],
     [1087, 1077, 1076, 1088, 1080, 1082],
     [1087, 1077, 1076, 1077, 1088, 1072, 1089, 1090],
     [1087, 1080, 1076, 1088, 1072, 1089],
     [1087, 1080, 1076, 1088, 1099],
     [1087, 1080, 1076, 1088, 1080, 1083, 1099],
     [1087, 1080, 1076, 1088, 1080, 1083, 1086],
     [1087, 1077, 1076, 1088, 1080, 1083, 1086],
     [1073, 1083, 1103, 1076, 1080, 1085, 1072],
     [1073, 1083, 1103, 1076, 1100],
     [1073, 1083, 1103, 1076, 1089, 1090, 1074, 1086],
     [1073, 1083, 1103, 1076, 1089, 1090, 1074, 1091, 1102, 1097, 1080, 1077],
     [1073, 1083, 1103, 1076, 1089, 1090, 1074, 1091, 1077, 1090],
     [1096, 1072, 1083, 1072, 1074, 1072],
     [1096, 1072, 1083, 1072, 1074, 1086, 1089, 1090, 1100],
     [1096, 1072, 1083, 1072, 1074, 1080, 1090, 1100, 1089, 1103]]"

text \<open>\<^verbatim>\<open>DEFAULT_BAD_WORDS\<close> of \<^verbatim>\<open>main.py\<close> (line 26).\<close>

definition DEFAULT_BAD_WORDS_main :: "ustr list" where
  "DEFAULT_BAD_WORDS_main =
     [[1093, 1091, 1081],
      [1087, 1080, 1079, 1076, 1072],
      [1073, 1083, 1103, 1090, 1100],
      [1073, 1083, 1103, 1076, 1100],
      [1077, 1073, 1072, 1090, 1100],
      [1089, 1091, 1082, 1072]]"

text \<open>
  \<^verbatim>\<open>load_bad_words\<close>. In \<^verbatim>\<open>bot.py\<close> it returns the constant. In \<^verbatim>\<open>main.py\<close> it reads
  \<^verbatim>\<open>bad_words.txt\<close>, which is not part of the repository: the argument is the list of
  words read from that file, or \<open>None\<close> when the file is missing or unreadable.
\<close>

definition load_bad_words_bot :: "ustr list" where
  "load_bad_words_bot = DEFAULT_BAD_WORDS_bot"

definition load_bad_words_main :: "ustr list option \<Rightarrow> ustr list" where
  "load_bad_words_main file_words =
     (case file_words of None \<Rightarrow> DEFAULT_BAD_WORDS_main | Some ws \<Rightarrow> ws)"

text \<open>\<^verbatim>\<open>censor_text\<close> of \<^verbatim>\<open>bot.py\<close> (296-321).\<close>

definition censor_text_bot :: "ustr \<Rightarrow> ustr \<times> bool" where
  "censor_text_bot t = censor_loop load_bad_words_bot (t, False)"

text \<open>
  The contact pattern of \<^verbatim>\<open>main.py\<close> (line 342):
  \<^verbatim>\<open>(K1|K2|K3|K4|K5\.?|K6\.)[:;\s]*([\+\d\(\).\s-]{7,})\<close>, where K1..K6 are the Russian words
  zvonite, pishite, telefon, nomer, tel and the letter t (in Cyrillic).
  \<open>decimal_blocks\<close> are the first code points of the runs of ten decimal digits that
  \<^verbatim>\<open>\d\<close> matches; the mathematical digits U+1D7CE..U+1D7FF form one longer run.
\<close>

definition decimal_blocks :: "nat list" where
  "decimal_blocks =
     [48, 1632, 1776, 1984, 2406, 2534, 2662, 2790, 2918, 3046, 3174, 3302, 3430, 3558,
      3664, 3792, 3872, 4160, 4240, 6112, 6160, 6470, 6608, 6784, 6800, 6992, 7088, 7232,
      7248, 42528, 43216, 43264, 43472, 43504, 43600, 44016, 65296, 66720, 68912, 69734,
      69872, 69942, 70096, 70384, 70736, 70864, 71248, 71360, 71472, 71904, 72016, 72784,
      73040, 73120, 92768, 92864, 93008, 123200, 123632, 125264, 130032]"

definition is_decimal :: "nat \<Rightarrow> bool" where
  "is_decimal c = (list_ex (\<lambda>b. b \<le> c \<and> c < b + 10) decimal_blocks \<or> (120782 \<le> c \<and> c \<le> 120831))"

definition sep_class :: "nat \<Rightarrow> bool" where
  "sep_class c = (c = 58 \<or> c = 59 \<or> is_space c)"

definition number_class :: "nat \<Rightarrow> bool" where
  "number_class c = (c = 43 \<or> is_decimal c \<or> c = 40 \<or> c = 41 \<or> c = 46 \<or> is_space c \<or> c = 45)"

text \<open>
  The alternatives of the first group in the order the matcher tries them; the optional
  dot of \<^verbatim>\<open>K5\.?\<close> is greedy, so the form with the dot comes before the form without.
\<close>

definition contact_keywords :: "ustr list" where
  "contact_keywords =
     [[1079, 1074, 1086, 1085, 1080, 1090, 1077],
      [1087, 1080, 1096, 1080, 1090, 1077],
      [1090, 1077, 1083, 1077, 1092, 1086, 1085],
      [1085, 1086, 1084, 1077, 1088],
      [1090, 1077, 1083, 46],
      [1090, 1077, 1083],
      [1090, 46]]"

text \<open>
  Behind the keyword: \<^verbatim>\<open>[:;\s]*\<close> takes \<open>k\<close> separators, at first as many as there are,
  and gives them back one by one until at least seven characters of the number class
  follow; these are then taken greedily. The result is the length matched.
\<close>

fun contact_tail :: "nat \<Rightarrow> ustr \<Rightarrow> nat option" where
  "contact_tail 0 s =
     (let n = length (takeWhile number_class s) in if 7 \<le> n then Some n else None)"
| "contact_tail (Suc k) s =
     (let n = length (takeWhile number_class (drop (Suc k) s)) in
      if 7 \<le> n then Some (Suc k + n) else contact_tail k s)"

fun contact_alts :: "ustr list \<Rightarrow> ustr \<Rightarrow> nat option" where
  "contact_alts [] s = None"
| "contact_alts (kw # kws) s =
     (if ci_prefix kw s then
        (case contact_tail (length (takeWhile sep_class (drop (length kw) s))) (drop (length kw) s) of
           Some n \<Rightarrow> Some (length kw + n)
         | None \<Rightarrow> contact_alts kws s)
      else contact_alts kws s)"

definition contact_match :: "ustr \<Rightarrow> nat option" where
  "contact_match s = contact_alts contact_keywords s"

text \<open>The replacement text (Russian for: contact information hidden, write in private messages).\<close>

definition contact_notice :: ustr where
  "contact_notice =
     [1050, 1086, 1085, 1090, 1072, 1082, 1090, 1085, 1072, 1103, 32, 1080, 1085, 1092, 1086,
      1088, 1084, 1072, 1094, 1080, 1103, 32, 1089, 1082, 1088, 1099, 1090, 1072, 32, 40, 1087,
      1080, 1096, 1080, 1090, 1077, 32, 1074, 32, 1051, 1057, 41]"

fun contact_sub :: "ustr \<Rightarrow> ustr" where
  "contact_sub [] = []"
| "contact_sub (c # cs) =
     (case contact_match (c # cs) of
        Some n \<Rightarrow> contact_notice @ contact_sub (drop (n - 1) cs)
      | None \<Rightarrow> c # contact_sub cs)"

text \<open>
  \<^verbatim>\<open>censor_text\<close> of \<^verbatim>\<open>main.py\<close> (318-347), with \<^verbatim>\<open>BAD_WORDS_LIST\<close> as its first argument.
  Masking contact information does not set the flag.
\<close>

definition censor_text_main :: "ustr list \<Rightarrow> ustr \<Rightarrow> ustr \<times> bool" where
  "censor_text_main BAD_WORDS_LIST t =
     (let r = censor_loop BAD_WORDS_LIST (t, False) in (contact_sub (fst r), snd r))"

section \<open>The store and the transport\<close>

text \<open>
  A row of the table \<^verbatim>\<open>applications\<close> (the same columns in both files). The column
  \<^verbatim>\<open>type\<close> is \<open>app_type\<close> and the column \<^verbatim>\<open>text\<close> is \<open>app_text\<close>. A stored
  \<^verbatim>\<open>publish_date\<close> is kept as what \<^verbatim>\<open>strptime(..., "%Y-%m-%d")\<close> makes of it: the ordinal
  of the date, or \<open>None\<close> where it raises ValueError; a NULL or empty column is the outer
  \<open>None\<close>. \<open>published_at\<close> is the time stamp, NULL being \<open>None\<close>.
\<close>

type_synonym date_text = "nat option"

record application =
  app_id :: nat
  user_id :: int
  username :: "ustr option"
  app_type :: ustr
  subtype :: "ustr option"
  from_name :: "ustr option"
  to_name :: "ustr option"
  app_text :: ustr
  status :: string
  publish_date :: "date_text option"
  published_at :: "nat option"
  congrat_type :: "ustr option"

text \<open>
  What the bot sends, by purpose and by the application it is about; the wording of a
  message is not modelled. \<open>ChannelPost\<close> is the message to \<^verbatim>\<open>CHANNEL_ID\<close> (\<^verbatim>\<open>bot.py\<close>) or
  \<^verbatim>\<open>GROUP_ID\<close> (\<^verbatim>\<open>main.py\<close>), \<open>PublishedNotice\<close> the notice to the author that the
  application is published, \<open>ActorReply\<close> the text shown to whoever pressed a moderation
  button.
\<close>

datatype reply =
    NoRights | NotFound | AlreadyHasStatus | AlreadyApproved | AlreadyRejected
  | ApprovedOk | RejectedOk | ApproveError | RejectError | UnknownAction

datatype message =
    ChannelPost nat
  | PublishedNotice nat
  | ApprovedNotice nat
  | RejectedNotice nat
  | ModerationRequest nat
  | ActorReply reply

text \<open>
  The calls that can fail for reasons outside the program, and the environment of one
  handler run or one scheduler cycle: today's date (as an ordinal), the time stamp the
  database would write, and whether each database call, each send and the answer to a
  callback query goes through.
\<close>

datatype db_call =
    Insert
  | GetDetails nat
  | GetFreshDetails nat
  | ListApproved
  | UpdateStatus nat string
  | MarkPublished nat

record env =
  today :: nat
  stamp :: nat
  db_ok :: "db_call \<Rightarrow> bool"
  send_ok :: "message \<Rightarrow> bool"
  answer_ok :: bool

record world =
  applications :: "application list"
  next_id :: nat
  sent :: "message list"

record config =
  ADMIN_CHAT_ID :: "int option"
  CHANNEL_ID :: "int option"
  GROUP_ID :: "int option"

text \<open>Truth value of an optional integer: \<^verbatim>\<open>None\<close> and 0 are false.\<close>

definition truthy :: "int option \<Rightarrow> bool" where
  "truthy x = (case x of None \<Rightarrow> False | Some n \<Rightarrow> n \<noteq> 0)"

text \<open>\<^verbatim>\<open>main.py\<close> 47-63: publishing is enabled exactly when \<^verbatim>\<open>GROUP_ID\<close> was read.\<close>

definition IS_PUBLISHING_ENABLED :: "config \<Rightarrow> bool" where
  "IS_PUBLISHING_ENABLED cfg = (GROUP_ID cfg \<noteq> None)"

text \<open>
  \<^verbatim>\<open>bot.send_message\<close>: the message is delivered and logged, or the call raises and nothing
  is sent. The second component tells which.
\<close>

definition send :: "env \<Rightarrow> message \<Rightarrow> world \<Rightarrow> world \<times> bool" where
  "send e m w = (if send_ok e m then (w\<lparr>sent := sent w @ [m]\<rparr>, True) else (w, False))"

text \<open>
  \<^verbatim>\<open>safe_send_message\<close>, \<^verbatim>\<open>safe_edit_message_text\<close> and \<^verbatim>\<open>safe_reply_text\<close> where the caller
  ignores the outcome: a failure is logged and swallowed.
\<close>

definition safe_send :: "env \<Rightarrow> message \<Rightarrow> world \<Rightarrow> world" where
  "safe_send e m w = fst (send e m w)"

text \<open>
  The database functions, the same in both files up to the driver: a failed connection or
  statement is caught and gives \<^verbatim>\<open>None\<close>, the empty list or \<^verbatim>\<open>False\<close>.
\<close>

definition get_application_details :: "env \<Rightarrow> db_call \<Rightarrow> nat \<Rightarrow> world \<Rightarrow> application option" where
  "get_application_details e call i w =
     (if db_ok e call then find (\<lambda>a. app_id a = i) (applications w) else None)"

definition get_approved_unpublished_applications :: "env \<Rightarrow> world \<Rightarrow> application list" where
  "get_approved_unpublished_applications e w =
     (if db_ok e ListApproved
      then filter (\<lambda>a. status a = ''approved'' \<and> published_at a = None) (applications w)
      else [])"

definition update_application_status :: "env \<Rightarrow> nat \<Rightarrow> string \<Rightarrow> world \<Rightarrow> world \<times> bool" where
  "update_application_status e i s w =
     (if db_ok e (UpdateStatus i s)
      then (w\<lparr>applications :=
                map (\<lambda>a. if app_id a = i then a\<lparr>status := s\<rparr> else a) (applications w)\<rparr>, True)
      else (w, False))"

definition mark_application_as_published :: "env \<Rightarrow> nat \<Rightarrow> world \<Rightarrow> world \<times> bool" where
  "mark_application_as_published e i w =
     (if db_ok e (MarkPublished i)
      then (w\<lparr>applications :=
                map (\<lambda>a. if app_id a = i
                          then a\<lparr>published_at := Some (stamp e), status := ''published''\<rparr>
                          else a) (applications w)\<rparr>, True)
      else (w, False))"

section \<open>Publishing\<close>

text \<open>
  \<^verbatim>\<open>publish_to_channel\<close> (\<^verbatim>\<open>bot.py\<close> 371-392). The send raises on failure, which skips the
  marking; the outcome of the marking itself is not looked at.
\<close>

definition publish_to_channel :: "config \<Rightarrow> env \<Rightarrow> nat \<Rightarrow> world \<Rightarrow> world \<times> bool" where
  "publish_to_channel cfg e i w =
     (if \<not> truthy (CHANNEL_ID cfg) then (w, False)
      else case get_application_details e (GetDetails i) i w of
        None \<Rightarrow> (w, False)
      | Some app_details \<Rightarrow>
          (let (w1, delivered) = send e (ChannelPost i) w in
           if delivered then (fst (mark_application_as_published e i w1), True)
           else (w1, False)))"

text \<open>
  The condition of \<^verbatim>\<open>check_pending_applications\<close> (\<^verbatim>\<open>bot.py\<close> 398-401); \<open>None\<close> when
  \<^verbatim>\<open>strptime\<close> raises, which nothing there catches.
\<close>

definition is_due :: "env \<Rightarrow> application \<Rightarrow> bool option" where
  "is_due e a =
     (if app_type a = asc ''news'' \<or> app_type a = asc ''announcement'' then Some True
      else case publish_date a of
        None \<Rightarrow> Some False
      | Some None \<Rightarrow> None
      | Some (Some d) \<Rightarrow> Some (d \<le> today e))"

text \<open>The loop over the rows read at the start of the cycle; an exception ends the cycle.\<close>

fun check_pending_loop :: "config \<Rightarrow> env \<Rightarrow> application list \<Rightarrow> world \<Rightarrow> world" where
  "check_pending_loop cfg e [] w = w"
| "check_pending_loop cfg e (a # rest) w =
     (case is_due e a of
        None \<Rightarrow> w
      | Some due \<Rightarrow>
          if due then check_pending_loop cfg e rest (fst (publish_to_channel cfg e (app_id a) w))
          else check_pending_loop cfg e rest w)"

definition check_pending_applications :: "config \<Rightarrow> env \<Rightarrow> world \<Rightarrow> world" where
  "check_pending_applications cfg e w =
     check_pending_loop cfg e (get_approved_unpublished_applications e w) w"

text \<open>
  \<^verbatim>\<open>publish_application_to_channel\<close> (\<^verbatim>\<open>main.py\<close> 1123-1208), given the row as a dictionary.
  \<^verbatim>\<open>safe_send_message\<close> returns nothing, so the marking follows whether or not the message
  went out. The three known types differ only in the wording of the post.
\<close>

definition publish_application_to_channel :: "config \<Rightarrow> env \<Rightarrow> application \<Rightarrow> world \<Rightarrow> world" where
  "publish_application_to_channel cfg e app_data w =
     (if \<not> IS_PUBLISHING_ENABLED cfg \<or> \<not> truthy (GROUP_ID cfg) then w
      else if status app_data \<noteq> ''approved'' then w
      else if published_at app_data \<noteq> None then
        (if status app_data \<noteq> ''published''
         then fst (update_application_status e (app_id app_data) ''published'' w) else w)
      else if app_type app_data \<noteq> asc ''congrat'' \<and> app_type app_data \<noteq> asc ''announcement''
              \<and> app_type app_data \<noteq> asc ''news'' then w
      else
        (let w1 = safe_send e (ChannelPost (app_id app_data)) w;
             (w2, marked) = mark_application_as_published e (app_id app_data) w1
         in if marked \<and> user_id app_data \<noteq> 0
            then safe_send e (PublishedNotice (app_id app_data)) w2
            else w2))"

text \<open>
  \<^verbatim>\<open>scheduled_publication_check\<close> (\<^verbatim>\<open>main.py\<close> 1210-1255). The query does not select
  \<^verbatim>\<open>published_at\<close>, so the dictionary handed on has none.
\<close>

fun scheduled_loop :: "config \<Rightarrow> env \<Rightarrow> application list \<Rightarrow> world \<Rightarrow> world" where
  "scheduled_loop cfg e [] w = w"
| "scheduled_loop cfg e (a # rest) w =
     (let app_data = a\<lparr>published_at := None\<rparr> in
      if status app_data \<noteq> ''approved'' \<or> published_at app_data \<noteq> None
      then scheduled_loop cfg e rest w
      else case publish_date app_data of
        None \<Rightarrow> scheduled_loop cfg e rest w
      | Some None \<Rightarrow> scheduled_loop cfg e rest w
      | Some (Some d) \<Rightarrow>
          if d \<le> today e
          then scheduled_loop cfg e rest (publish_application_to_channel cfg e app_data w)
          else scheduled_loop cfg e rest w)"

definition scheduled_publication_check :: "config \<Rightarrow> env \<Rightarrow> world \<Rightarrow> world" where
  "scheduled_publication_check cfg e w =
     (if \<not> IS_PUBLISHING_ENABLED cfg then w
      else scheduled_loop cfg e (get_approved_unpublished_applications e w) w)"

section \<open>Moderation\<close>

text \<open>
  \<^verbatim>\<open>admin_callback_handler\<close> (\<^verbatim>\<open>bot.py\<close> 758-796), for callback data
  \<^verbatim>\<open>admin_<action>_<id>\<close> pressed by the user \<open>actor\<close>. \<^verbatim>\<open>query.answer()\<close> is not guarded:
  when it raises, the handler ends there.
\<close>

definition admin_callback_handler ::
  "config \<Rightarrow> env \<Rightarrow> int \<Rightarrow> ustr \<Rightarrow> nat \<Rightarrow> world \<Rightarrow> world" where
  "admin_callback_handler cfg e actor action i w =
     (if \<not> answer_ok e then w
      else if ADMIN_CHAT_ID cfg \<noteq> Some actor then safe_send e (ActorReply NoRights) w
      else case get_application_details e (GetDetails i) i w of
        None \<Rightarrow> safe_send e (ActorReply NotFound) w
      | Some app_details \<Rightarrow>
          if status app_details \<noteq> ''pending'' then safe_send e (ActorReply AlreadyHasStatus) w
          else if action = asc ''approve'' then
            (let (w1, success) = update_application_status e i ''approved'' w in
             if success
             then safe_send e (ApprovedNotice i) (safe_send e (ActorReply ApprovedOk) w1)
             else safe_send e (ActorReply ApproveError) w1)
          else if action = asc ''reject'' then
            (let (w1, success) = update_application_status e i ''rejected'' w in
             if success
             then safe_send e (RejectedNotice i) (safe_send e (ActorReply RejectedOk) w1)
             else safe_send e (ActorReply RejectError) w1)
          else w)"

text \<open>
  \<^verbatim>\<open>handle_admin_decision\<close> (\<^verbatim>\<open>main.py\<close> 1049-1121), for callback data
  \<^verbatim>\<open><action>_<id>\<close> pressed by the user \<open>actor\<close>. The handler never reads who pressed the
  button. A failing \<^verbatim>\<open>query.answer()\<close> is caught.
\<close>

definition immediate_publication :: "config \<Rightarrow> env \<Rightarrow> application \<Rightarrow> nat \<Rightarrow> world \<Rightarrow> world" where
  "immediate_publication cfg e app_details i w =
     (if IS_PUBLISHING_ENABLED cfg \<and> published_at app_details = None then
        (case publish_date app_details of
           Some (Some d) \<Rightarrow>
             if d \<le> today e then
               (case get_application_details e (GetFreshDetails i) i w of
                  Some fresh_details \<Rightarrow> publish_application_to_channel cfg e fresh_details w
                | None \<Rightarrow> w)
             else w
         | _ \<Rightarrow> w)
      else w)"

definition handle_admin_decision ::
  "config \<Rightarrow> env \<Rightarrow> int \<Rightarrow> ustr \<Rightarrow> nat \<Rightarrow> world \<Rightarrow> world" where
  "handle_admin_decision cfg e actor action i w =
     (if 9223372036854775808 \<le> i then w
      else case get_application_details e (GetDetails i) i w of
        None \<Rightarrow> safe_send e (ActorReply NotFound) w
      | Some app_details \<Rightarrow>
          if action = asc ''approve'' then
            (if status app_details = ''approved'' \<or> status app_details = ''published''
             then safe_send e (ActorReply AlreadyApproved) w
             else
               (let (w1, updated) = update_application_status e i ''approved'' w in
                if updated
                then safe_send e (ActorReply ApprovedOk) (immediate_publication cfg e app_details i w1)
                else safe_send e (ActorReply ApproveError) w1))
          else if action = asc ''reject'' then
            (if status app_details = ''rejected''
             then safe_send e (ActorReply AlreadyRejected) w
             else
               (let (w1, updated) = update_application_status e i ''rejected'' w in
                if updated
                then (let w2 = safe_send e (ActorReply RejectedOk) w1 in
                      if user_id app_details \<noteq> 0 then safe_send e (RejectedNotice i) w2 else w2)
                else safe_send e (ActorReply RejectError) w1))
          else safe_send e (ActorReply UnknownAction) w)"

section \<open>Coroutines\<close>

text \<open>
  Both programs run their handlers and the scheduler's job as coroutines on one event
  loop: a coroutine runs alone until it awaits a call that goes over the network, and
  while it waits the others run. A task is what is left of a coroutine at such a point:
  it has finished, or it goes on with a segment, which changes the world and leaves the
  next task. An awaited call takes effect when the coroutine is resumed, in the
  environment of that moment. In \<^verbatim>\<open>main.py\<close> the database calls are synchronous
  (\<^verbatim>\<open>sqlite3\<close>), so only the calls to Telegram suspend; in \<^verbatim>\<open>bot.py\<close> the database calls
  (\<^verbatim>\<open>asyncpg\<close>) suspend as well.
\<close>

datatype task = Finished | Segment "env \<Rightarrow> world \<Rightarrow> world" "env \<Rightarrow> world \<Rightarrow> task"

type_synonym steps = "env \<Rightarrow> world \<Rightarrow> world \<times> task"

definition segment :: "steps \<Rightarrow> task" where
  "segment f = Segment (\<lambda>e w. fst (f e w)) (\<lambda>e w. snd (f e w))"

fun resume :: "task \<Rightarrow> steps" where
  "resume Finished e w = (w, Finished)"
| "resume (Segment change rest) e w = (change e w, rest e w)"

text \<open>The coroutine returns; it awaits something and goes on with \<open>k\<close> when resumed.\<close>

definition finish :: steps where
  "finish e w = (w, Finished)"

definition suspend :: "steps \<Rightarrow> steps" where
  "suspend k e w = (w, segment k)"

text \<open>
  \<^verbatim>\<open>await safe_send_message(...)\<close>, \<^verbatim>\<open>await safe_edit_message_text(...)\<close> and
  \<^verbatim>\<open>await safe_reply_text(...)\<close>, the outcome ignored.
\<close>

definition await_send :: "message \<Rightarrow> steps \<Rightarrow> steps" where
  "await_send m k = suspend (\<lambda>e w. k e (safe_send e m w))"

subsection \<open>main.py\<close>

text \<open>
  \<^verbatim>\<open>publish_application_to_channel\<close> as a coroutine, \<open>k\<close> being what its caller does next.
  It is suspended while the post goes out, and marks the record when it is resumed.
\<close>

definition publish_steps :: "config \<Rightarrow> application \<Rightarrow> steps \<Rightarrow> steps" where
  "publish_steps cfg app_data k e w =
     (if \<not> IS_PUBLISHING_ENABLED cfg \<or> \<not> truthy (GROUP_ID cfg) then k e w
      else if status app_data \<noteq> ''approved'' then k e w
      else if published_at app_data \<noteq> None then
        (if status app_data \<noteq> ''published''
         then k e (fst (update_application_status e (app_id app_data) ''published'' w))
         else k e w)
      else if app_type app_data \<noteq> asc ''congrat'' \<and> app_type app_data \<noteq> asc ''announcement''
              \<and> app_type app_data \<noteq> asc ''news'' then k e w
      else
        await_send (ChannelPost (app_id app_data))
          (\<lambda>e1 w1.
             let (w2, marked) = mark_application_as_published e1 (app_id app_data) w1 in
             if marked \<and> user_id app_data \<noteq> 0
             then await_send (PublishedNotice (app_id app_data)) k e1 w2
             else k e1 w2) e w)"

text \<open>\<^verbatim>\<open>scheduled_publication_check\<close>: the rows are read when the job starts.\<close>

primrec scheduled_rows :: "config \<Rightarrow> application list \<Rightarrow> steps" where
  "scheduled_rows cfg [] = finish"
| "scheduled_rows cfg (a # rest) =
     (\<lambda>e w.
        let app_data = a\<lparr>published_at := None\<rparr> in
        if status app_data \<noteq> ''approved'' \<or> published_at app_data \<noteq> None
        then scheduled_rows cfg rest e w
        else case publish_date app_data of
          None \<Rightarrow> scheduled_rows cfg rest e w
        | Some None \<Rightarrow> scheduled_rows cfg rest e w
        | Some (Some d) \<Rightarrow>
            if d \<le> today e
            then publish_steps cfg app_data (scheduled_rows cfg rest) e w
            else scheduled_rows cfg rest e w)"

definition scheduled_publication_steps :: "config \<Rightarrow> steps" where
  "scheduled_publication_steps cfg e w =
     (if \<not> IS_PUBLISHING_ENABLED cfg then finish e w
      else scheduled_rows cfg (get_approved_unpublished_applications e w) e w)"

text \<open>
  \<^verbatim>\<open>handle_admin_decision\<close>: suspended for \<^verbatim>\<open>query.answer()\<close>, then the record is read and
  updated in one go, up to the first message.
\<close>

definition immediate_steps :: "config \<Rightarrow> application \<Rightarrow> nat \<Rightarrow> steps \<Rightarrow> steps" where
  "immediate_steps cfg app_details i k e w =
     (if IS_PUBLISHING_ENABLED cfg \<and> published_at app_details = None then
        (case publish_date app_details of
           Some (Some d) \<Rightarrow>
             if d \<le> today e then
               (case get_application_details e (GetFreshDetails i) i w of
                  Some fresh_details \<Rightarrow> publish_steps cfg fresh_details k e w
                | None \<Rightarrow> k e w)
             else k e w
         | _ \<Rightarrow> k e w)
      else k e w)"

definition decision_steps :: "config \<Rightarrow> int \<Rightarrow> ustr \<Rightarrow> nat \<Rightarrow> steps" where
  "decision_steps cfg actor action i =
     suspend (\<lambda>e w.
       if 9223372036854775808 \<le> i then finish e w
       else case get_application_details e (GetDetails i) i w of
         None \<Rightarrow> await_send (ActorReply NotFound) finish e w
       | Some app_details \<Rightarrow>
           if action = asc ''approve'' then
             (if status app_details = ''approved'' \<or> status app_details = ''published''
              then await_send (ActorReply AlreadyApproved) finish e w
              else
                (let (w1, updated) = update_application_status e i ''approved'' w in
                 if updated
                 then immediate_steps cfg app_details i
                        (await_send (ActorReply ApprovedOk) finish) e w1
                 else await_send (ActorReply ApproveError) finish e w1))
           else if action = asc ''reject'' then
             (if status app_details = ''rejected''
              then await_send (ActorReply AlreadyRejected) finish e w
              else
                (let (w1, updated) = update_application_status e i ''rejected'' w in
                 if updated
                 then await_send (ActorReply RejectedOk)
                        (if user_id app_details \<noteq> 0
                         then await_send (RejectedNotice i) finish else finish) e w1
                 else await_send (ActorReply RejectError) finish e w1))
           else await_send (ActorReply UnknownAction) finish e w)"

subsection \<open>bot.py\<close>

text \<open>The awaited database calls, and \<^verbatim>\<open>bot.send_message\<close> where a failure is an exception.\<close>

definition await_details :: "db_call \<Rightarrow> nat \<Rightarrow> (application option \<Rightarrow> steps) \<Rightarrow> steps" where
  "await_details c i k = suspend (\<lambda>e w. k (get_application_details e c i w) e w)"

definition await_update :: "nat \<Rightarrow> string \<Rightarrow> (bool \<Rightarrow> steps) \<Rightarrow> steps" where
  "await_update i s k =
     suspend (\<lambda>e w. k (snd (update_application_status e i s w)) e
                       (fst (update_application_status e i s w)))"

definition await_mark :: "nat \<Rightarrow> steps \<Rightarrow> steps" where
  "await_mark i k = suspend (\<lambda>e w. k e (fst (mark_application_as_published e i w)))"

definition await_post :: "message \<Rightarrow> steps \<Rightarrow> steps \<Rightarrow> steps" where
  "await_post m sent_k failed_k =
     suspend (\<lambda>e w. if snd (send e m w) then sent_k e (fst (send e m w))
                     else failed_k e (fst (send e m w)))"

text \<open>\<^verbatim>\<open>publish_to_channel\<close> as a coroutine.\<close>

definition publish_to_channel_steps :: "config \<Rightarrow> nat \<Rightarrow> steps \<Rightarrow> steps" where
  "publish_to_channel_steps cfg i k e w =
     (if \<not> truthy (CHANNEL_ID cfg) then k e w
      else await_details (GetDetails i) i
             (\<lambda>found. case found of
                None \<Rightarrow> k
              | Some app_details \<Rightarrow> await_post (ChannelPost i) (await_mark i k) k) e w)"

text \<open>
  \<^verbatim>\<open>check_pending_applications\<close>: the rows are read, then each due row is published and
  the job sleeps a second.
\<close>

primrec check_pending_rows :: "config \<Rightarrow> application list \<Rightarrow> steps" where
  "check_pending_rows cfg [] = finish"
| "check_pending_rows cfg (a # rest) =
     (\<lambda>e w. case is_due e a of
        None \<Rightarrow> finish e w
      | Some due \<Rightarrow>
          if due
          then publish_to_channel_steps cfg (app_id a) (suspend (check_pending_rows cfg rest)) e w
          else check_pending_rows cfg rest e w)"

definition check_pending_steps :: "config \<Rightarrow> steps" where
  "check_pending_steps cfg =
     suspend (\<lambda>e w. check_pending_rows cfg (get_approved_unpublished_applications e w) e w)"

text \<open>\<^verbatim>\<open>admin_callback_handler\<close> as a coroutine.\<close>

definition admin_steps :: "config \<Rightarrow> int \<Rightarrow> ustr \<Rightarrow> nat \<Rightarrow> steps" where
  "admin_steps cfg actor action i =
     suspend (\<lambda>e w.
       if \<not> answer_ok e then finish e w
       else if ADMIN_CHAT_ID cfg \<noteq> Some actor then await_send (ActorReply NoRights) finish e w
       else await_details (GetDetails i) i
              (\<lambda>found. case found of
                 None \<Rightarrow> await_send (ActorReply NotFound) finish
               | Some app_details \<Rightarrow>
                   if status app_details \<noteq> ''pending''
                   then await_send (ActorReply AlreadyHasStatus) finish
                   else if action = asc ''approve'' then
                     await_update i ''approved''
                       (\<lambda>success. if success
                          then await_send (ActorReply ApprovedOk)
                                 (await_send (ApprovedNotice i) finish)
                          else await_send (ActorReply ApproveError) finish)
                   else if action = asc ''reject'' then
                     await_update i ''rejected''
                       (\<lambda>success. if success
                          then await_send (ActorReply RejectedOk)
                                 (await_send (RejectedNotice i) finish)
                          else await_send (ActorReply RejectError) finish)
                   else finish) e w)"

subsection \<open>The event loop\<close>

text \<open>
  What starts a coroutine: the scheduler's interval, or a press of a moderation button by
  \<open>actor\<close> with the action and the id of the callback data.
\<close>

datatype trigger = CycleDue | Press int ustr nat

definition program_bot :: "config \<Rightarrow> trigger \<Rightarrow> steps" where
  "program_bot cfg trig =
     (case trig of
        CycleDue \<Rightarrow> check_pending_steps cfg
      | Press actor action i \<Rightarrow> admin_steps cfg actor action i)"

definition program_main :: "config \<Rightarrow> trigger \<Rightarrow> steps" where
  "program_main cfg trig =
     (case trig of
        CycleDue \<Rightarrow> scheduled_publication_steps cfg
      | Press actor action i \<Rightarrow> decision_steps cfg actor action i)"

text \<open>
  A run: the loop starts a coroutine, which runs to its first await, or resumes the
  suspended coroutine number \<open>n\<close>, which runs to its next await; every such piece has its
  own environment. Any interleaving of the coroutines is a list of these.
\<close>

datatype activity = Start trigger | Continue nat

fun exec :: "(trigger \<Rightarrow> steps) \<Rightarrow> (activity \<times> env) list \<Rightarrow> world \<times> task list \<Rightarrow> world \<times> task list" where
  "exec prog [] s = s"
| "exec prog ((Start trig, e) # later) (w, pool) =
     exec prog later (fst (prog trig e w), pool @ [snd (prog trig e w)])"
| "exec prog ((Continue n, e) # later) (w, pool) =
     (if n < length pool
      then exec prog later (fst (resume (pool ! n) e w), pool[n := snd (resume (pool ! n) e w)])
      else exec prog later (w, pool))"

text \<open>A coroutine run from start to end with nothing in between, in one environment.\<close>

primrec run_alone :: "task \<Rightarrow> env \<Rightarrow> world \<Rightarrow> world" where
  "run_alone Finished e w = w"
| "run_alone (Segment change rest) e w = run_alone (rest e w) e (change e w)"

section \<open>The conversation\<close>

text \<open>
  The states of the \<^verbatim>\<open>ConversationHandler\<close> (the same nine in both files) and
  \<^verbatim>\<open>ConversationHandler.END\<close>. Of the handlers, those are modelled that take a final text
  and those behind them. The wording of the prompts and replies to the author is not
  modelled: a handler's result is the state it returns, the user data and the store. A
  handler of \<^verbatim>\<open>bot.py\<close> can raise (a key missing from the user data, an unguarded
  \<^verbatim>\<open>query.answer()\<close>); its result is then \<open>None\<close>.
\<close>

datatype conv_state =
    TYPE_SELECTION
  | SENDER_NAME_INPUT
  | RECIPIENT_NAME_INPUT
  | CONGRAT_HOLIDAY_CHOICE
  | CUSTOM_CONGRAT_MESSAGE_INPUT
  | CONGRAT_DATE_INPUT
  | ANNOUNCE_SUBTYPE_SELECTION
  | ANNOUNCE_TEXT_INPUT
  | WAIT_CENSOR_APPROVAL
  | END










subsection \<open>bot.py\<close>








subsection \<open>main.py\<close>









section \<open>Banned words and the contact notice\<close>



section \<open>Example data\<close>

text \<open>
  A configuration with a moderator and a channel, environments in which everything works,
  in which the post to the channel fails, and a news item of user 77 in each status.
\<close>

definition example_config :: config where
  "example_config = \<lparr>ADMIN_CHAT_ID = Some 1000, CHANNEL_ID = Some 500, GROUP_ID = Some 500\<rparr>"

definition all_ok :: env where
  "all_ok = \<lparr>today = 200, stamp = 5, db_ok = (\<lambda>c. True), send_ok = (\<lambda>m. True), answer_ok = True\<rparr>"

definition channel_down :: env where
  "channel_down = \<lparr>today = 200, stamp = 5, db_ok = (\<lambda>c. True),
     send_ok = (\<lambda>m. m \<noteq> ChannelPost 1), answer_ok = True\<rparr>"

definition example_row :: "string \<Rightarrow> nat option \<Rightarrow> application" where
  "example_row st pub =
     \<lparr>app_id = 1, user_id = 77, username = None, app_type = asc ''news'', subtype = None,
      from_name = None, to_name = None, app_text = asc ''hello'', status = st,
      publish_date = Some (Some 100), published_at = pub, congrat_type = None\<rparr>"

definition example_world :: "string \<Rightarrow> nat option \<Rightarrow> world" where
  "example_world st pub = \<lparr>applications = [example_row st pub], next_id = 2, sent = []\<rparr>"

definition mark_fails :: env where
  "mark_fails = \<lparr>today = 200, stamp = 5, db_ok = (\<lambda>c. c \<noteq> MarkPublished 1),
     send_ok = (\<lambda>m. True), answer_ok = True\<rparr>"



section \<open>Published records\<close>


definition deliveries :: "nat \<Rightarrow> world \<Rightarrow> nat" where
  "deliveries i w = length (filter (\<lambda>m. m = ChannelPost i \<or> m = PublishedNotice i) (sent w))"




section \<open>Name validation: results\<close>

lemma has_substr_hyphens:
  "has_substr [45, 45] t = (\<exists>i. Suc i < length t \<and> t ! i = 45 \<and> t ! Suc i = 45)"
proof (induction t)
  case Nil
  then show ?case by simp
next
  case (Cons c cs)
  show ?case
  proof
    assume "has_substr [45, 45] (c # cs)"
    then consider "startswith (c # cs) [45, 45]" | "has_substr [45, 45] cs"
      by auto
    then show "\<exists>i. Suc i < length (c # cs) \<and> (c # cs) ! i = 45 \<and> (c # cs) ! Suc i = 45"
    proof cases
      case 1
      then obtain r where "cs = 45 # r" and "c = 45"
        by (cases cs) (auto simp: startswith_def)
      then show ?thesis by (intro exI[of _ 0]) simp
    next
      case 2
      with Cons.IH obtain i where "Suc i < length cs" "cs ! i = 45" "cs ! Suc i = 45"
        by blast
      then show ?thesis by (intro exI[of _ "Suc i"]) simp
    qed
  next
    assume "\<exists>i. Suc i < length (c # cs) \<and> (c # cs) ! i = 45 \<and> (c # cs) ! Suc i = 45"
    then obtain i where i: "Suc i < length (c # cs)" "(c # cs) ! i = 45" "(c # cs) ! Suc i = 45"
      by blast
    show "has_substr [45, 45] (c # cs)"
    proof (cases i)
      case 0
      with i obtain r where "cs = 45 # r" and "c = 45"
        by (cases cs) auto
      then show ?thesis by (simp add: startswith_def)
    next
      case (Suc j)
      with i have "Suc j < length cs" "cs ! j = 45" "cs ! Suc j = 45"
        by auto
      with Cons.IH have "has_substr [45, 45] cs" by blast
      then show ?thesis by simp
    qed
  qed
qed

lemma startswith_hyphen: "t \<noteq> [] \<Longrightarrow> startswith t [45] = (hd t = 45)"
  by (cases t) (auto simp: startswith_def)

lemma endswith_hyphen: "t \<noteq> [] \<Longrightarrow> endswith t [45] = (last t = 45)"
proof -
  assume ne: "t \<noteq> []"
  then obtain xs x where t: "t = xs @ [x]"
    by (metis rev_exhaust)
  show ?thesis by (simp add: t endswith_def)
qed

lemma validate_name_bot_meets_rule: "validate_name_bot name = spec_name_rule name"
proof (cases "strip name = []")
  case True
  then show ?thesis
    by (simp add: validate_name_bot_def spec_name_rule_def)
next
  case False
  then have "name \<noteq> []"
    by (auto simp: strip_def)
  with False show ?thesis
    by (simp add: validate_name_bot_def spec_name_rule_def Let_def MAX_NAME_LENGTH_def
        has_substr_hyphens startswith_hyphen endswith_hyphen list_all_iff)
      blast
qed

lemma validate_name_main_rule: "validate_name_main name = length_and_chars_rule name"
  by (auto simp: validate_name_main_def length_and_chars_rule_def Let_def MAX_NAME_LENGTH_def
      list_all_iff)

text \<open>
  Claim C6. For every input string, name validation returns true iff the trimmed value
  has length 2 to 50, consists only of allowed letters, spaces and hyphens, does not start
  or end with a hyphen, and contains no doubled hyphen. \<^verbatim>\<open>validate_name\<close> of \<^verbatim>\<open>bot.py\<close> is
  exactly this rule. \<^verbatim>\<open>validate_name\<close> of \<^verbatim>\<open>main.py\<close> is not: it checks length and
  characters only, and returns true for the five characters hyphen, I, v, a, n (the
  Russian name Ivan behind a leading hyphen), which the rule refuses.
\<close>

theorem validate_name_hyphen_rule:
  "(\<forall>name. validate_name_bot name = spec_name_rule name) \<and>
   validate_name_main [45, 1048, 1074, 1072, 1085] = True \<and>
   spec_name_rule [45, 1048, 1074, 1072, 1085] = False \<and>
   validate_name_bot [45, 1048, 1074, 1072, 1085] = False"
proof -
  have a: "validate_name_main [45, 1048, 1074, 1072, 1085] = True"
    by (simp add: validate_name_main_def strip_def is_space_def allowed_chars_def
        MAX_NAME_LENGTH_def)
  have b: "validate_name_bot [45, 1048, 1074, 1072, 1085] = False"
    by (simp add: validate_name_bot_def strip_def is_space_def startswith_def)
  from b have c: "spec_name_rule [45, 1048, 1074, 1072, 1085] = False"
    by (simp only: validate_name_bot_meets_rule)
  from a b c show ?thesis
    by (simp only: validate_name_bot_meets_rule simp_thms)
qed

section \<open>Holiday window: results\<close>

lemma days_before_month_ge: "2 \<le> m \<Longrightarrow> 31 \<le> days_before_month y m"
  by (simp add: days_before_month_def upt_conv_Cons days_in_month_def)

lemma days_before_month_1: "days_before_month y (Suc 0) = 0"
  by (simp add: days_before_month_def)

text \<open>
  The holiday of 1 January is active exactly from 1 to 6 January of a year that
  \<^verbatim>\<open>strptime\<close> can read: the window is laid around 1 January of the current year, so
  the last days of December are compared with a window eleven months back.
\<close>

lemma is_holiday_active_new_year:
  "is_holiday_active clk (1, 1) =
     (1000 \<le> now_year clk \<and> now_year clk \<le> 9999 \<and> now_month clk = 1 \<and>
      1 \<le> now_day clk \<and> now_day clk \<le> 6)"
proof (cases "1000 \<le> now_year clk \<and> now_year clk \<le> 9999")
  case False
  then show ?thesis
    by (auto simp: is_holiday_active_def strptime_year_md_def date_of_def Let_def)
next
  case True
  define y where "y = now_year clk"
  have y: "1000 \<le> y" "y \<le> 9999" using True by (simp_all add: y_def)
  have lo: "364635 \<le> days_before_year y"
  proof -
    have "(y - 1) div 100 \<le> (y - 1) div 4"
      by (rule div_le_mono2) simp_all
    then have "(y - 1) * 365 \<le> days_before_year y"
      unfolding days_before_year_def by arith
    moreover have "999 * 365 \<le> (y - 1) * 365" using y by simp
    ultimately show ?thesis by simp
  qed
  have hi: "days_before_year y \<le> 3651769"
  proof -
    have "(y - 1) div 400 \<le> (y - 1) div 100"
      by (rule div_le_mono2) simp_all
    then have "days_before_year y \<le> (y - 1) * 365 + (y - 1) div 4"
      unfolding days_before_year_def by arith
    moreover have "(y - 1) * 365 \<le> 9998 * 365" using y by simp
    moreover have "(y - 1) div 4 \<le> 9998 div 4"
      by (rule div_le_mono) (use y in simp)
    ultimately show ?thesis by linarith
  qed
  have hol: "strptime_year_md y (1, 1) = Some (days_before_year y + 1)"
    using y by (simp add: strptime_year_md_def date_of_def days_in_month_def days_before_month_1)
  have st: "date_minus_days (days_before_year y + 1) 5 = Some (days_before_year y - 4)"
    using lo by (simp add: date_minus_days_def)
  have en: "date_plus_days (days_before_year y + 1) 5 = Some (days_before_year y + 6)"
    using hi by (simp add: date_plus_days_def MAXORDINAL_def)
  show ?thesis
  proof (cases "date_of y (now_month clk) (now_day clk)")
    case None
    then have "\<not> (now_month clk = 1 \<and> 1 \<le> now_day clk \<and> now_day clk \<le> 6)"
      using y by (auto simp: date_of_def days_in_month_def split: if_splits)
    with None hol st en True show ?thesis
      by (simp add: is_holiday_active_def Let_def y_def[symmetric])
  next
    case (Some today)
    then have v: "1 \<le> now_month clk" "now_month clk \<le> 12" "1 \<le> now_day clk"
      and t: "today = days_before_year y + days_before_month y (now_month clk) + now_day clk"
      by (auto simp: date_of_def split: if_splits)
    have "(today \<le> days_before_year y + 6) = (now_month clk = 1 \<and> now_day clk \<le> 6)"
    proof (cases "now_month clk = 1")
      case True
      then show ?thesis by (simp add: t days_before_month_1)
    next
      case False
      with v have "2 \<le> now_month clk" by simp
      from days_before_month_ge[OF this, of y] v False show ?thesis
        by (simp add: t)
    qed
    moreover have "days_before_year y - 4 \<le> today" by (simp add: t)
    ultimately show ?thesis
      using Some hol st en True v
      by (simp add: is_holiday_active_def Let_def y_def[symmetric])
  qed
qed

text \<open>
  Claim C10. The holiday New Year (month-day 01-01) is selectable iff today lies within
  27 December to 6 January. The code does not do this: on 28 December 2025, inside that
  window, \<^verbatim>\<open>is_holiday_active\<close> is false, while on 6 January it is true and on 7 January
  false.
\<close>

theorem is_holiday_active_december:
  "is_holiday_active \<lparr>now_year = 2025, now_month = 12, now_day = 28\<rparr> (1, 1) = False \<and>
   is_holiday_active \<lparr>now_year = 2025, now_month = 1, now_day = 6\<rparr> (1, 1) = True \<and>
   is_holiday_active \<lparr>now_year = 2025, now_month = 1, now_day = 7\<rparr> (1, 1) = False"
  unfolding is_holiday_active_new_year by simp

section \<open>The censor: results\<close>

text \<open>Rewrite rules that evaluate the matcher from the left and stop at the first mismatch.\<close>

lemma ci_prefix_no: "\<not> ci_match p d \<Longrightarrow> ci_prefix (p # ps) (d # ds) = False"
  by simp

lemma ci_prefix_yes: "ci_match p d \<Longrightarrow> ci_prefix (p # ps) (d # ds) = ci_prefix ps ds"
  by simp

lemma censor_loop_skip:
  "\<not> re_search w t \<Longrightarrow> censor_loop (w # ws) (t, b) = censor_loop ws (t, b)"
  by simp

lemma censor_loop_hit:
  "re_search w t \<Longrightarrow> censor_loop (w # ws) (t, b) = censor_loop ws (re_sub w t, True)"
  by simp

lemma sub_word_no: "\<not> ci_prefix w (c # cs) \<Longrightarrow> sub_word w (c # cs) = c # sub_word w cs"
  by simp

lemma sub_word_yes:
  "ci_prefix w (c # cs) \<Longrightarrow> sub_word w (c # cs) = mask @ sub_word w (drop (length w - 1) cs)"
  by simp

lemmas censor_eval =
  ci_prefix_no ci_prefix_yes censor_loop_skip censor_loop_hit sub_word_no sub_word_yes
  re_sub_def mask_def ci_match_def tolower_cp_def ci_fixes_def

lemmas contact_eval =
  contact_match_def contact_keywords_def sep_class_def number_class_def is_space_def
  is_decimal_def decimal_blocks_def

text \<open>
  Claim C8, as the code has it. The input is the Russian word for "call" followed by a
  space and the digits 89991234567. In \<^verbatim>\<open>bot.py\<close> the word is a banned term: the censor
  returns the mask, the space and the digits, with the flag set. In \<^verbatim>\<open>main.py\<close> (banned
  words file absent) the word is not a banned term: the loop leaves the text alone, the
  contact pattern replaces all of it by the notice, and the flag stays clear.
\<close>

theorem censor_text_call_number:
  "censor_text_bot
     [1079, 1074, 1086, 1085, 1080, 1090, 1077, 32, 56, 57, 57, 57, 49, 50, 51, 52, 53, 54, 55]
     = ([42, 42, 42, 32, 56, 57, 57, 57, 49, 50, 51, 52, 53, 54, 55], True) \<and>
   censor_text_main (load_bad_words_main None)
     [1079, 1074, 1086, 1085, 1080, 1090, 1077, 32, 56, 57, 57, 57, 49, 50, 51, 52, 53, 54, 55]
     = (contact_notice, False)"
proof
  show "censor_text_bot
     [1079, 1074, 1086, 1085, 1080, 1090, 1077, 32, 56, 57, 57, 57, 49, 50, 51, 52, 53, 54, 55]
     = ([42, 42, 42, 32, 56, 57, 57, 57, 49, 50, 51, 52, 53, 54, 55], True)"
    by (simp add: censor_text_bot_def load_bad_words_bot_def DEFAULT_BAD_WORDS_bot_def
        censor_eval del: ci_prefix.simps(3) censor_loop.simps(2) sub_word.simps(2))
  show "censor_text_main (load_bad_words_main None)
     [1079, 1074, 1086, 1085, 1080, 1090, 1077, 32, 56, 57, 57, 57, 49, 50, 51, 52, 53, 54, 55]
     = (contact_notice, False)"
    by (simp add: censor_text_main_def load_bad_words_main_def DEFAULT_BAD_WORDS_main_def
        censor_eval contact_eval
        del: ci_prefix.simps(3) censor_loop.simps(2) sub_word.simps(2))
qed

text \<open>
  Against claim C8 as stated: in \<^verbatim>\<open>main.py\<close> the censor does not report a violation for
  this input.
\<close>

theorem censor_text_main_call_number_unflagged:
  "snd (censor_text_main (load_bad_words_main None)
     [1079, 1074, 1086, 1085, 1080, 1090, 1077, 32, 56, 57, 57, 57, 49, 50, 51, 52, 53, 54, 55])
     = False"
  by (simp add: censor_text_main_def load_bad_words_main_def DEFAULT_BAD_WORDS_main_def
      censor_eval del: ci_prefix.simps(3) censor_loop.simps(2) sub_word.simps(2))

section \<open>Published records: results\<close>







































text \<open>
  Run alone and in one environment, each coroutine does what the function of the same
  handler does in one step.
\<close>

lemma alone_finish: "run_alone (snd (finish e w)) e (fst (finish e w)) = w"
  by (simp add: finish_def)

lemma alone_suspend:
  "run_alone (snd (suspend k e w)) e (fst (suspend k e w)) = run_alone (snd (k e w)) e (fst (k e w))"
  by (simp add: suspend_def segment_def)

lemma alone_await_send:
  "run_alone (snd (await_send m k e w)) e (fst (await_send m k e w)) =
   run_alone (snd (k e (safe_send e m w))) e (fst (k e (safe_send e m w)))"
  by (simp add: await_send_def alone_suspend)

lemma alone_publish_steps:
  "run_alone (snd (publish_steps cfg a k e w)) e (fst (publish_steps cfg a k e w)) =
   run_alone (snd (k e (publish_application_to_channel cfg e a w))) e
     (fst (k e (publish_application_to_channel cfg e a w)))"
  by (simp add: publish_steps_def publish_application_to_channel_def alone_await_send Let_def
      split: prod.splits)

lemma alone_scheduled_rows:
  "run_alone (snd (scheduled_rows cfg rows e w)) e (fst (scheduled_rows cfg rows e w)) =
   scheduled_loop cfg e rows w"
  by (induction rows arbitrary: w)
    (simp_all add: alone_finish alone_publish_steps Let_def split: option.splits)

lemma alone_scheduled_publication_steps:
  "run_alone (snd (scheduled_publication_steps cfg e w)) e
     (fst (scheduled_publication_steps cfg e w)) =
   scheduled_publication_check cfg e w"
  by (simp add: scheduled_publication_steps_def scheduled_publication_check_def alone_finish
      alone_scheduled_rows)

lemma alone_immediate_steps:
  "run_alone (snd (immediate_steps cfg d i k e w)) e (fst (immediate_steps cfg d i k e w)) =
   run_alone (snd (k e (immediate_publication cfg e d i w))) e
     (fst (k e (immediate_publication cfg e d i w)))"
  by (simp add: immediate_steps_def immediate_publication_def alone_publish_steps
      split: option.splits)

lemma alone_decision_steps:
  "run_alone (snd (decision_steps cfg actor action i e w)) e
     (fst (decision_steps cfg actor action i e w)) =
   handle_admin_decision cfg e actor action i w"
  by (simp add: decision_steps_def handle_admin_decision_def alone_suspend alone_await_send
      alone_immediate_steps alone_finish Let_def split: option.splits prod.splits)

lemma alone_publish_to_channel_steps:
  "run_alone (snd (publish_to_channel_steps cfg i k e w)) e
     (fst (publish_to_channel_steps cfg i k e w)) =
   run_alone (snd (k e (fst (publish_to_channel cfg e i w)))) e
     (fst (k e (fst (publish_to_channel cfg e i w))))"
  by (simp add: publish_to_channel_steps_def publish_to_channel_def await_details_def
      await_post_def await_mark_def alone_suspend Let_def split: option.splits prod.splits)

lemma alone_check_pending_rows:
  "run_alone (snd (check_pending_rows cfg rows e w)) e (fst (check_pending_rows cfg rows e w)) =
   check_pending_loop cfg e rows w"
  by (induction rows arbitrary: w)
    (simp_all add: alone_finish alone_publish_to_channel_steps alone_suspend split: option.splits)

lemma alone_check_pending_steps:
  "run_alone (snd (check_pending_steps cfg e w)) e (fst (check_pending_steps cfg e w)) =
   check_pending_applications cfg e w"
  by (simp add: check_pending_steps_def check_pending_applications_def alone_suspend
      alone_check_pending_rows)

lemma alone_admin_steps:
  "run_alone (snd (admin_steps cfg actor action i e w)) e (fst (admin_steps cfg actor action i e w)) =
   admin_callback_handler cfg e actor action i w"
  by (simp add: admin_steps_def admin_callback_handler_def alone_suspend alone_await_send
      await_details_def await_update_def alone_finish Let_def
      split: option.splits prod.splits)

lemmas store_eval =
  example_config_def all_ok_def channel_down_def mark_fails_def example_row_def example_world_def
  scheduled_publication_check_def check_pending_applications_def publish_to_channel_def
  publish_application_to_channel_def get_approved_unpublished_applications_def
  get_application_details_def update_application_status_def mark_application_as_published_def
  send_def safe_send_def truthy_def IS_PUBLISHING_ENABLED_def is_due_def asc_def
  admin_callback_handler_def handle_admin_decision_def immediate_publication_def Let_def

lemmas task_eval =
  program_bot_def program_main_def scheduled_publication_steps_def decision_steps_def
  immediate_steps_def publish_steps_def check_pending_steps_def admin_steps_def
  publish_to_channel_steps_def await_details_def await_update_def await_mark_def await_post_def
  await_send_def suspend_def segment_def finish_def deliveries_def




text \<open>
  In both programs a record whose marking fails after the post is posted again by every
  later cycle, here twice by two cycles of \<^verbatim>\<open>bot.py\<close> run one after the other.
\<close>

lemma unmarked_record_posted_again:
  "sent (fst (exec (program_bot example_config)
       [(Start CycleDue, mark_fails), (Continue 0, mark_fails), (Continue 0, mark_fails),
        (Continue 0, mark_fails), (Continue 0, mark_fails), (Continue 0, mark_fails),
        (Start CycleDue, mark_fails), (Continue 1, mark_fails), (Continue 1, mark_fails),
        (Continue 1, mark_fails), (Continue 1, mark_fails), (Continue 1, mark_fails)]
       (example_world ''approved'' None, []))) =
     [ChannelPost 1, ChannelPost 1]"
  by (simp add: task_eval store_eval)

section \<open>Moderation and publishing: results\<close>

lemma publish_to_channel_send_failed:
  "\<not> send_ok e (ChannelPost i) \<Longrightarrow> publish_to_channel cfg e i w = (w, False)"
  by (simp add: publish_to_channel_def send_def split: option.splits)

lemma admin_callback_handler_not_moderator:
  "ADMIN_CHAT_ID cfg \<noteq> Some actor \<Longrightarrow>
   applications (admin_callback_handler cfg e actor action i w) = applications w"
  by (simp add: admin_callback_handler_def safe_send_def send_def)

text \<open>
  Claim C2. The lifecycle status only moves pending to approved, pending to rejected and
  approved to published; nothing changes a record that is published or rejected.
  \<^verbatim>\<open>handle_admin_decision\<close> of \<^verbatim>\<open>main.py\<close> breaks this: the moderator's reject on a published
  record sets it to rejected (and tells the author so). \<^verbatim>\<open>admin_callback_handler\<close> of
  \<^verbatim>\<open>bot.py\<close>, given the same press, answers that the record already has a status and
  leaves it alone.
\<close>

theorem handle_admin_decision_rejects_published:
  "handle_admin_decision example_config all_ok 1000 (asc ''reject'') 1
     (example_world ''published'' (Some 3)) =
     \<lparr>applications = [example_row ''rejected'' (Some 3)], next_id = 2,
      sent = [ActorReply RejectedOk, RejectedNotice 1]\<rparr> \<and>
   admin_callback_handler example_config all_ok 1000 (asc ''reject'') 1
     (example_world ''published'' (Some 3)) =
     \<lparr>applications = [example_row ''published'' (Some 3)], next_id = 2,
      sent = [ActorReply AlreadyHasStatus]\<rparr>"
  by (simp add: store_eval)

text \<open>
  Claim C3. A record is set to published, with \<^verbatim>\<open>published_at\<close> filled, only if the post to
  the channel went out; if the send fails the record stays approved and unpublished.
  \<^verbatim>\<open>publish_application_to_channel\<close> of \<^verbatim>\<open>main.py\<close> breaks this: with the channel
  unreachable, a scheduler cycle over an approved, due record marks it published and
  notifies the author, although nothing was posted. \<^verbatim>\<open>check_pending_applications\<close> of
  \<^verbatim>\<open>bot.py\<close> leaves the same record as it was.
\<close>

theorem scheduled_publication_marks_unsent:
  "scheduled_publication_check example_config channel_down (example_world ''approved'' None) =
     \<lparr>applications = [example_row ''published'' (Some 5)], next_id = 2,
      sent = [PublishedNotice 1]\<rparr> \<and>
   check_pending_applications example_config channel_down (example_world ''approved'' None) =
     example_world ''approved'' None"
  by (simp add: store_eval)

text \<open>
  Claim C4. An approve or reject by someone who is not the configured moderator is refused
  with a message to the actor, and no record changes status. \<^verbatim>\<open>handle_admin_decision\<close> of
  \<^verbatim>\<open>main.py\<close> breaks this: it never looks at who pressed the button, so the approve of user
  666 (the moderator is 1000) on a pending record approves it and, the date being due,
  publishes it. \<^verbatim>\<open>admin_callback_handler\<close> of \<^verbatim>\<open>bot.py\<close> refuses the same press.
\<close>

theorem handle_admin_decision_any_actor:
  "handle_admin_decision example_config all_ok 666 (asc ''approve'') 1
     (example_world ''pending'' None) =
     \<lparr>applications = [example_row ''published'' (Some 5)], next_id = 2,
      sent = [ChannelPost 1, PublishedNotice 1, ActorReply ApprovedOk]\<rparr> \<and>
   admin_callback_handler example_config all_ok 666 (asc ''approve'') 1
     (example_world ''pending'' None) =
     \<lparr>applications = [example_row ''pending'' None], next_id = 2,
      sent = [ActorReply NoRights]\<rparr>"
  by (simp add: store_eval)

section \<open>Final texts: results\<close>













section \<open>Censor approval: results\<close>


















section \<open>Idempotence of the censor: results\<close>




lemma re_search_tail: "re_search v cs \<Longrightarrow> re_search v (c # cs)"
  by simp







































end
